theory Spec2Isabelle
  imports Main
begin

section \<open>Errors\<close>

text \<open>
  Every exception the storage layer can raise is a value. \<open>Runtime_error\<close> and
  \<open>Domain_error\<close> carry the message given to \<^verbatim>\<open>std::runtime_error\<close> and
  \<^verbatim>\<open>std::domain_error\<close>; \<open>R_error\<close> is a condition raised on the R side
  (by \<^verbatim>\<open>Rcpp::stop\<close> or by a called R function), with its message;
  \<open>Library_error\<close> is an exception raised inside the RACES library.
\<close>

datatype error =
    Runtime_error string
  | Domain_error string
  | Out_of_range
  | Invalid_argument
  | Filesystem_error
  | Library_error
  | R_error string

section \<open>Strings and positions\<close>

text \<open>
  Positions in a \<^verbatim>\<open>std::string\<close> are \<^verbatim>\<open>size_t\<close> values: naturals below
  \<open>2 ^ 64\<close>, with \<open>npos\<close> the largest one. Adding to a position wraps.
\<close>

definition npos :: nat where
  "npos = 2 ^ 64 - 1"

definition size_t_plus :: "nat \<Rightarrow> nat \<Rightarrow> nat" where
  "size_t_plus a b = (a + b) mod 2 ^ 64"

fun first_index :: "'a \<Rightarrow> 'a list \<Rightarrow> nat option" where
  "first_index c [] = None"
| "first_index c (x # xs) =
     (if x = c then Some 0 else map_option Suc (first_index c xs))"

text \<open>\<^verbatim>\<open>s.find(c)\<close>: the position of the first \<open>c\<close>, or \<open>npos\<close>.\<close>

definition str_find :: "string \<Rightarrow> char \<Rightarrow> nat" where
  "str_find s c = (case first_index c s of None \<Rightarrow> npos | Some i \<Rightarrow> i)"

text \<open>\<^verbatim>\<open>s.find_last_of(c)\<close>: the position of the last \<open>c\<close>, or \<open>npos\<close>.\<close>

definition find_last_of :: "string \<Rightarrow> char \<Rightarrow> nat" where
  "find_last_of s c =
     (case first_index c (rev s) of
        None \<Rightarrow> npos
      | Some j \<Rightarrow> length s - 1 - j)"

text \<open>
  \<^verbatim>\<open>s.substr(pos)\<close> and \<^verbatim>\<open>s.substr(pos, count)\<close> throw
  \<^verbatim>\<open>std::out_of_range\<close> when \<open>pos\<close> is beyond the size of the string.
\<close>

definition substr_from :: "string \<Rightarrow> nat \<Rightarrow> error + string" where
  "substr_from s pos = (if length s < pos then Inl Out_of_range else Inr (drop pos s))"

definition substr :: "string \<Rightarrow> nat \<Rightarrow> nat \<Rightarrow> error + string" where
  "substr s pos count =
     (if length s < pos then Inl Out_of_range else Inr (take count (drop pos s)))"

text \<open>\<^verbatim>\<open>s.find(t) == 0\<close>: \<open>t\<close> occurs at the very start of \<open>s\<close>.\<close>

definition starts_with :: "string \<Rightarrow> string \<Rightarrow> bool" where
  "starts_with s t = (take (length t) s = t)"

section \<open>Paths\<close>

text \<open>
  A \<^verbatim>\<open>std::filesystem::path\<close> is its POSIX string; \<^verbatim>\<open>to_string\<close> of a path
  is that string. \<open>path_join p q\<close> is \<^verbatim>\<open>p / q\<close>: an absolute \<open>q\<close> replaces
  \<open>p\<close>, otherwise a separator is put in between when \<open>p\<close> ends in a file name.
\<close>

definition is_absolute :: "string \<Rightarrow> bool" where
  "is_absolute q = (case q of [] \<Rightarrow> False | c # _ \<Rightarrow> c = CHR ''/'')"

definition has_filename :: "string \<Rightarrow> bool" where
  "has_filename p = (p \<noteq> [] \<and> last p \<noteq> CHR ''/'')"

definition path_join :: "string \<Rightarrow> string \<Rightarrow> string" where
  "path_join p q =
     (if is_absolute q then q
      else if has_filename p then p @ ''/'' @ q
      else p @ q)"

text \<open>
  \<^verbatim>\<open>p.parent_path()\<close>: the path without its last component and without the
  separators before it; the root is its own parent.
\<close>

definition parent_path :: "string \<Rightarrow> string" where
  "parent_path p =
     (let stem = rev (dropWhile (\<lambda>c. c \<noteq> CHR ''/'') (rev p));
          cut = rev (dropWhile (\<lambda>c. c = CHR ''/'') (rev stem))
      in if cut = [] \<and> stem \<noteq> [] then ''/'' else cut)"

section \<open>The storage object\<close>

record GenomicDataStorage =
  directory :: string
  reference_src :: string
  SBS_signatures_src :: string
  indel_signatures_src :: string
  drivers_src :: string
  passenger_CNAs_src :: string
  germline_src :: string

definition get_directory :: "GenomicDataStorage \<Rightarrow> string" where
  "get_directory g = directory g"

text \<open>
  \<^verbatim>\<open>get_destination_path\<close>: the body of the \<^verbatim>\<open>try\<close> block is
  \<open>destination_body\<close>; any exception it raises is replaced by the
  \<^verbatim>\<open>std::domain_error\<close> of the handler.
\<close>

definition destination_body :: "GenomicDataStorage \<Rightarrow> string \<Rightarrow> error + string" where
  "destination_body g url =
     (let name_occurrence = size_t_plus (find_last_of url CHR ''/'') 1 in
      case substr_from url name_occurrence of
        Inl e \<Rightarrow> Inl e
      | Inr filename \<Rightarrow>
          (let question_occurrence = str_find filename CHR ''?'' in
           if question_occurrence \<noteq> npos then
             (case substr filename 0 question_occurrence of
                Inl e \<Rightarrow> Inl e
              | Inr filename' \<Rightarrow> Inr (path_join (get_directory g) filename'))
           else Inr (path_join (get_directory g) filename)))"

definition get_destination_path :: "GenomicDataStorage \<Rightarrow> string \<Rightarrow> error + string" where
  "get_destination_path g url =
     (case destination_body g url of
        Inl e \<Rightarrow> Inl (Domain_error (''\"'' @ url @ ''\" is not a valid URL.''))
      | Inr p \<Rightarrow> Inr p)"

text \<open>The words of the specification: the text after the last \<open>/\<close>, cut at the first \<open>?\<close>.\<close>

definition after_last_slash :: "string \<Rightarrow> string" where
  "after_last_slash url = rev (takeWhile (\<lambda>c. c \<noteq> CHR ''/'') (rev url))"

definition strip_query :: "string \<Rightarrow> string" where
  "strip_query name = takeWhile (\<lambda>c. c \<noteq> CHR ''?'') name"

section \<open>The host: file system, R session, network\<close>

text \<open>
  The file system maps a path, as the operating system resolves it, to what is there.
  A regular file carries what \<^verbatim>\<open>RACES::IO::CSVReader(file, true, '\t')\<close> presents
  of it: the fields of the header line and the fields of every data row, in file order.
\<close>

datatype node = Directory | Regular "string list" "string list list"

type_synonym filesystem = "string \<rightharpoonup> node"

text \<open>
  The calls that leave the process are recorded: \<^verbatim>\<open>download.file\<close> with the
  timeout option in force at the call, the decompressor of \<^verbatim>\<open>R.utils\<close>,
  \<^verbatim>\<open>untar\<close>, and the authenticated COSMIC session.
\<close>

datatype event =
    Download_file string string int
  | Decompress string string string
  | Untar string string
  | COSMIC_session string string "(string \<times> string) list"

text \<open>
  An R function called from the C++ code acts on the file system and may raise a
  condition: it returns the message of the condition, if any, and the file system it
  leaves behind. What these functions do is the host's business, so they are fields of
  the world. Progress messages written to \<^verbatim>\<open>Rcpp::Rcout\<close> are not modelled.
\<close>

type_synonym R_effect = "filesystem \<Rightarrow> string option \<times> filesystem"

record world =
  fs :: filesystem
  timeout :: int
  trace :: "event list"
  download_f :: "string \<Rightarrow> string \<Rightarrow> int \<Rightarrow> R_effect"
  decompress_f :: "string \<Rightarrow> string \<Rightarrow> string \<Rightarrow> R_effect"
  untar_f :: "string \<Rightarrow> string \<Rightarrow> R_effect"
  cosmic_f :: "string \<Rightarrow> string \<Rightarrow> (string \<times> string) list \<Rightarrow> R_effect"

definition exists :: "world \<Rightarrow> string \<Rightarrow> bool" where
  "exists w p = (fs w p \<noteq> None)"

definition is_directory :: "world \<Rightarrow> string \<Rightarrow> bool" where
  "is_directory w p = (fs w p = Some Directory)"

text \<open>
  \<^verbatim>\<open>std::filesystem::create_directory\<close>: nothing to do on a directory, an error on
  an empty path, on another kind of file and under a missing parent.
\<close>

definition create_directory :: "world \<Rightarrow> string \<Rightarrow> error + world" where
  "create_directory w p =
     (if p = [] then Inl Filesystem_error
      else if is_directory w p then Inr w
      else if exists w p then Inl Filesystem_error
      else if parent_path p = [] \<or> is_directory w (parent_path p)
        then Inr (w\<lparr>fs := (fs w)(p \<mapsto> Directory)\<rparr>)
      else Inl Filesystem_error)"

text \<open>\<^verbatim>\<open>std::filesystem::rename\<close>: the source must exist; the entry moves.\<close>

definition rename :: "world \<Rightarrow> string \<Rightarrow> string \<Rightarrow> error + world" where
  "rename w old new =
     (case fs w old of
        None \<Rightarrow> Inl Filesystem_error
      | Some n \<Rightarrow> Inr (w\<lparr>fs := ((fs w)(old := None))(new \<mapsto> n)\<rparr>))"

section \<open>Downloading\<close>

text \<open>
  The free function \<^verbatim>\<open>download_file(url, dest_filename)\<close>. The R option
  \<^verbatim>\<open>timeout\<close> is read, raised, and written back after \<^verbatim>\<open>download.file\<close>
  has returned; a condition raised by \<^verbatim>\<open>download.file\<close> leaves the function at
  that call. The option is only compared and copied, never computed with, so it is an
  \<open>int\<close> without a bound.
\<close>

definition download_file :: "world \<Rightarrow> string \<Rightarrow> string \<Rightarrow> (error + unit) \<times> world" where
  "download_file w url dest_filename =
     (case (if \<not> exists w (parent_path dest_filename)
            then create_directory w (parent_path dest_filename) else Inr w) of
        Inl e \<Rightarrow> (Inl e, w)
      | Inr w1 \<Rightarrow>
          (let timeout0 = timeout w1;
               w2 = w1\<lparr>timeout := max 1000 timeout0\<rparr>;
               w3 = w2\<lparr>trace := trace w2 @ [Download_file url dest_filename (timeout w2)]\<rparr>
           in case download_f w3 url dest_filename (timeout w3) (fs w3) of
                (Some m, fs') \<Rightarrow> (Inl (R_error m), w3\<lparr>fs := fs'\<rparr>)
              | (None, fs') \<Rightarrow> (Inr (), w3\<lparr>fs := fs', timeout := timeout0\<rparr>)))"

text \<open>The member \<^verbatim>\<open>GenomicDataStorage::download_file(url)\<close>.\<close>

definition storage_download_file ::
  "GenomicDataStorage \<Rightarrow> world \<Rightarrow> string \<Rightarrow> (error + string) \<times> world" where
  "storage_download_file g w url =
     (case get_destination_path g url of
        Inl e \<Rightarrow> (Inl e, w)
      | Inr dest_filename \<Rightarrow>
          (case download_file w url dest_filename of
             (Inl e, w') \<Rightarrow> (Inl e, w')
           | (Inr _, w') \<Rightarrow> (Inr dest_filename, w')))"

definition is_an_URL :: "string \<Rightarrow> bool" where
  "is_an_URL reference = list_ex (starts_with reference) [''ftp://'', ''http://'', ''https://'']"

section \<open>Storage paths and resolved paths\<close>

datatype mutation_type = SBSType | IDType

definition reference_storage_path :: "GenomicDataStorage \<Rightarrow> string" where
  "reference_storage_path g = path_join (get_directory g) ''reference.fasta''"

definition driver_mutations_storage_path :: "GenomicDataStorage \<Rightarrow> string" where
  "driver_mutations_storage_path g = path_join (get_directory g) ''drivers.txt''"

definition passenger_CNAs_storage_path :: "GenomicDataStorage \<Rightarrow> string" where
  "passenger_CNAs_storage_path g = path_join (get_directory g) ''passenger_CNAs.txt''"

definition germline_storage_path :: "GenomicDataStorage \<Rightarrow> string" where
  "germline_storage_path g = path_join (get_directory g) ''germline_data''"

fun signatures_storage_path :: "GenomicDataStorage \<Rightarrow> mutation_type \<Rightarrow> string" where
  "signatures_storage_path g SBSType = path_join (get_directory g) ''SBS_signatures.txt''"
| "signatures_storage_path g IDType = path_join (get_directory g) ''indel_signatures.txt''"

fun get_signatures_src :: "GenomicDataStorage \<Rightarrow> mutation_type \<Rightarrow> string" where
  "get_signatures_src g SBSType = SBS_signatures_src g"
| "get_signatures_src g IDType = indel_signatures_src g"

definition get_reference_path :: "GenomicDataStorage \<Rightarrow> world \<Rightarrow> string" where
  "get_reference_path g w =
     (if exists w (reference_src g) then reference_src g else reference_storage_path g)"

definition get_passenger_CNAs_path :: "GenomicDataStorage \<Rightarrow> world \<Rightarrow> string" where
  "get_passenger_CNAs_path g w =
     (if exists w (passenger_CNAs_src g) then passenger_CNAs_src g
      else passenger_CNAs_storage_path g)"

definition get_driver_mutations_path :: "GenomicDataStorage \<Rightarrow> world \<Rightarrow> string" where
  "get_driver_mutations_path g w =
     (if exists w (drivers_src g) then drivers_src g else driver_mutations_storage_path g)"

definition get_germline_path :: "GenomicDataStorage \<Rightarrow> world \<Rightarrow> string" where
  "get_germline_path g w =
     (if exists w (germline_src g) then germline_src g else germline_storage_path g)"

definition get_signatures_path :: "GenomicDataStorage \<Rightarrow> world \<Rightarrow> mutation_type \<Rightarrow> string" where
  "get_signatures_path g w k =
     (if exists w (get_signatures_src g k) then get_signatures_src g k
      else signatures_storage_path g k)"

section \<open>Signature retrieval\<close>

datatype Account = Account (get_username: string) (get_password: string)

text \<open>
  The regular expression \<^verbatim>\<open>^https://([a-zA-Z0-9_-]*).sanger.ac.uk\<close>, searched
  in a source: the anchor ties the match to the start of the string, the starred class
  may stop anywhere, and each unescaped dot stands for any character but a line end.
\<close>

definition host_char :: "char \<Rightarrow> bool" where
  "host_char c =
     (let n = (of_char c :: nat)
      in (97 \<le> n \<and> n \<le> 122) \<or> (65 \<le> n \<and> n \<le> 90) \<or> (48 \<le> n \<and> n \<le> 57)
         \<or> c = CHR ''_'' \<or> c = CHR ''-'')"

definition any_char :: "char \<Rightarrow> bool" where
  "any_char c = ((of_char c :: nat) \<noteq> 10 \<and> (of_char c :: nat) \<noteq> 13)"

fun match_dots :: "string \<Rightarrow> string \<Rightarrow> bool" where
  "match_dots [] s = True"
| "match_dots (p # ps) [] = False"
| "match_dots (p # ps) (c # cs) =
     ((if p = CHR ''.'' then any_char c else c = p) \<and> match_dots ps cs)"

fun match_host :: "string \<Rightarrow> bool" where
  "match_host [] = match_dots ''.sanger.ac.uk'' []"
| "match_host (c # cs) =
     (match_dots ''.sanger.ac.uk'' (c # cs) \<or> (host_char c \<and> match_host cs))"

definition COSMIC_site_regex :: "string \<Rightarrow> bool" where
  "COSMIC_site_regex src =
     (starts_with src ''https://'' \<and> match_host (drop (length ''https://'') src))"

definition signatures_from_COSMIC :: "(string \<times> string) list \<Rightarrow> bool" where
  "signatures_from_COSMIC download_list =
     list_ex (\<lambda>(src, dst). COSMIC_site_regex src) download_list"

definition collect_signatures_download_list ::
  "GenomicDataStorage \<Rightarrow> world \<Rightarrow> mutation_type \<Rightarrow> (string \<times> string) list
     \<Rightarrow> error + (string \<times> string) list" where
  "collect_signatures_download_list g w k download_list =
     (let dst_filename = signatures_storage_path g k in
      if exists w dst_filename then Inr download_list
      else
        (let source = get_signatures_src g k in
         if exists w source then Inr download_list
         else if \<not> is_an_URL source then
           Inl (Runtime_error (''Signature file \"'' @ source @ ''\" does not exists.''))
         else Inr (download_list @ [(source, dst_filename)])))"

definition COSMIC_account_message :: string where
  "COSMIC_account_message =
     ''Since April 2nd, 2025, COSMIC site (https://cancer.sanger.ac.uk/cosmic/)'' @ [CHR 0x0A]
     @ ''requires an account. Create an account, download SBS and ID mutation signature'' @ [CHR 0x0A]
     @ ''files, and pass them as parameters to `MutationEngine()` call. In alternative,'' @ [CHR 0x0A]
     @ ''provide COSMIC account details to `MutationEngine()` and let ProCESS download'' @ [CHR 0x0A]
     @ ''the signature files.'' @ [CHR 0x0A]"

text \<open>
  \<^verbatim>\<open>download_COSMIC\<close>: without an account the function stops at once; with one,
  the R function built from \<^verbatim>\<open>r_code\<close> runs the whole list in one session.
\<close>

definition download_COSMIC ::
  "world \<Rightarrow> Account option \<Rightarrow> (string \<times> string) list \<Rightarrow> (error + unit) \<times> world" where
  "download_COSMIC w COSMIC_account download_list =
     (case COSMIC_account of
        None \<Rightarrow> (Inl (R_error COSMIC_account_message), w)
      | Some a \<Rightarrow>
          (let w1 = w\<lparr>trace := trace w
                       @ [COSMIC_session (get_username a) (get_password a) download_list]\<rparr>
           in case cosmic_f w1 (get_username a) (get_password a) download_list (fs w1) of
                (Some m, fs') \<Rightarrow> (Inl (R_error m), w1\<lparr>fs := fs'\<rparr>)
              | (None, fs') \<Rightarrow> (Inr (), w1\<lparr>fs := fs'\<rparr>)))"

text \<open>The loop over the download list: one plain download per entry, in order.\<close>

fun download_each :: "world \<Rightarrow> (string \<times> string) list \<Rightarrow> (error + unit) \<times> world" where
  "download_each w [] = (Inr (), w)"
| "download_each w ((src, dst) # rest) =
     (case download_file w src dst of
        (Inl e, w') \<Rightarrow> (Inl e, w')
      | (Inr _, w') \<Rightarrow> download_each w' rest)"

text \<open>The first two statements of \<^verbatim>\<open>retrieve_signatures\<close>: SBS, then indel.\<close>

definition signatures_download_list ::
  "GenomicDataStorage \<Rightarrow> world \<Rightarrow> error + (string \<times> string) list" where
  "signatures_download_list g w =
     (case collect_signatures_download_list g w SBSType [] of
        Inl e \<Rightarrow> Inl e
      | Inr l \<Rightarrow> collect_signatures_download_list g w IDType l)"

definition retrieve_signatures ::
  "GenomicDataStorage \<Rightarrow> world \<Rightarrow> Account option \<Rightarrow> (error + unit) \<times> world" where
  "retrieve_signatures g w COSMIC_account =
     (case signatures_download_list g w of
        Inl e \<Rightarrow> (Inl e, w)
      | Inr download_list \<Rightarrow>
          if signatures_from_COSMIC download_list
          then download_COSMIC w COSMIC_account download_list
          else download_each w download_list)"

section \<open>Reference, drivers, passenger CNAs, germline\<close>

definition decompressors :: "string \<rightharpoonup> string" where
  "decompressors = map_of [(''gz'', ''gunzip''), (''bz2'', ''bunzip2'')]"

definition decompress ::
  "world \<Rightarrow> string \<Rightarrow> string \<Rightarrow> string \<Rightarrow> (error + unit) \<times> world" where
  "decompress w tool filename destname =
     (let w1 = w\<lparr>trace := trace w @ [Decompress tool filename destname]\<rparr>
      in case decompress_f w1 tool filename destname (fs w1) of
           (Some m, fs') \<Rightarrow> (Inl (R_error m), w1\<lparr>fs := fs'\<rparr>)
         | (None, fs') \<Rightarrow> (Inr (), w1\<lparr>fs := fs'\<rparr>))"

definition untar :: "world \<Rightarrow> string \<Rightarrow> string \<Rightarrow> (error + unit) \<times> world" where
  "untar w tarfile exdir =
     (let w1 = w\<lparr>trace := trace w @ [Untar tarfile exdir]\<rparr>
      in case untar_f w1 tarfile exdir (fs w1) of
           (Some m, fs') \<Rightarrow> (Inl (R_error m), w1\<lparr>fs := fs'\<rparr>)
         | (None, fs') \<Rightarrow> (Inr (), w1\<lparr>fs := fs'\<rparr>))"

text \<open>What \<^verbatim>\<open>retrieve_reference\<close> does with the downloaded file.\<close>

definition install_reference ::
  "world \<Rightarrow> string \<Rightarrow> string \<Rightarrow> (error + string) \<times> world" where
  "install_reference w downloaded_file reference_filename =
     (case substr_from downloaded_file
             (size_t_plus (find_last_of downloaded_file CHR ''.'') 1) of
        Inl e \<Rightarrow> (Inl e, w)
      | Inr suffix \<Rightarrow>
          if suffix = ''fa'' \<and> suffix = ''fasta'' then
            (case rename w downloaded_file reference_filename of
               Inl e \<Rightarrow> (Inl e, w)
             | Inr w' \<Rightarrow> (Inr reference_filename, w'))
          else
            (case decompressors suffix of
               None \<Rightarrow> (Inl (Runtime_error (''Unknown suffix \"'' @ suffix @ ''\"'')), w)
             | Some tool \<Rightarrow>
                 (case decompress w tool downloaded_file reference_filename of
                    (Inl e, w') \<Rightarrow> (Inl e, w')
                  | (Inr _, w') \<Rightarrow> (Inr reference_filename, w'))))"

definition retrieve_reference ::
  "GenomicDataStorage \<Rightarrow> world \<Rightarrow> (error + string) \<times> world" where
  "retrieve_reference g w =
     (if \<not> is_an_URL (reference_src g) \<and> \<not> exists w (reference_src g) then
        (Inl (Runtime_error (''Designed reference genome file \"'' @ reference_src g
                              @ ''\" does not exists.'')), w)
      else
        (let reference_filename = get_reference_path g w in
         if exists w reference_filename then (Inr reference_filename, w)
         else
           (case storage_download_file g w (reference_src g) of
              (Inl e, w') \<Rightarrow> (Inl e, w')
            | (Inr downloaded_file, w') \<Rightarrow>
                install_reference w' downloaded_file reference_filename)))"

definition retrieve_drivers :: "GenomicDataStorage \<Rightarrow> world \<Rightarrow> (error + unit) \<times> world" where
  "retrieve_drivers g w =
     (if exists w (drivers_src g) then (Inr (), w)
      else if \<not> is_an_URL (drivers_src g) \<and> \<not> exists w (drivers_src g) then
        (Inl (Runtime_error (''Designed driver mutations file \"'' @ drivers_src g
                              @ ''\" does not exists.'')), w)
      else
        (let mutations_filename = get_driver_mutations_path g w in
         if exists w mutations_filename then (Inr (), w)
         else download_file w (drivers_src g) mutations_filename))"

definition retrieve_passenger_CNAs ::
  "GenomicDataStorage \<Rightarrow> world \<Rightarrow> (error + unit) \<times> world" where
  "retrieve_passenger_CNAs g w =
     (if exists w (passenger_CNAs_src g) then (Inr (), w)
      else if \<not> is_an_URL (passenger_CNAs_src g) then
        (Inl (Runtime_error (''Designed passenger CNAs file \"'' @ passenger_CNAs_src g
                              @ ''\" does not exists.'')), w)
      else
        (let passenger_CNAs_filename = passenger_CNAs_storage_path g in
         if exists w passenger_CNAs_filename then (Inr (), w)
         else download_file w (passenger_CNAs_src g) passenger_CNAs_filename))"

definition retrieve_germline :: "GenomicDataStorage \<Rightarrow> world \<Rightarrow> (error + unit) \<times> world" where
  "retrieve_germline g w =
     (if exists w (germline_src g) then (Inr (), w)
      else if \<not> is_an_URL (germline_src g) then
        (Inl (Runtime_error (''Designed germline directory \"'' @ germline_src g
                              @ ''\" does not exists.'')), w)
      else
        (let germline_path = germline_storage_path g in
         if exists w (path_join germline_path ''germlines.csv'') then (Inr (), w)
         else
           (case storage_download_file g w (germline_src g) of
              (Inl e, w') \<Rightarrow> (Inl e, w')
            | (Inr downloaded_file, w') \<Rightarrow> untar w' downloaded_file (directory g))))"

section \<open>The germline store\<close>

datatype GermlineStorage = GermlineStorage (get_path: string)

definition get_alleles_file :: "GermlineStorage \<Rightarrow> string" where
  "get_alleles_file gs = path_join (get_path gs) ''alleles_per_chr.csv''"

definition get_population_file :: "GermlineStorage \<Rightarrow> string" where
  "get_population_file gs = path_join (get_path gs) ''population.csv''"

definition get_population_descriptions_file :: "GermlineStorage \<Rightarrow> string" where
  "get_population_descriptions_file gs = path_join (get_path gs) ''population_descriptions.csv''"

definition get_file :: "GermlineStorage \<Rightarrow> string" where
  "get_file gs = path_join (get_path gs) ''germlines.csv''"

definition missing_file_message :: "string \<Rightarrow> string \<Rightarrow> string" where
  "missing_file_message dir file =
     ''Designed germline mutations directory \"'' @ dir @ ''\" does not ''
     @ ''contains the file \"'' @ file @ ''\".''"

text \<open>The constructor \<^verbatim>\<open>GermlineStorage(directory)\<close>, check by check.\<close>

definition new_GermlineStorage :: "world \<Rightarrow> string \<Rightarrow> error + GermlineStorage" where
  "new_GermlineStorage w dir =
     (let this = GermlineStorage dir in
      if \<not> exists w dir then
        Inl (Runtime_error (''Designed germline mutations directory \"'' @ dir
                             @ ''\" does not exist.''))
      else if \<not> is_directory w dir then
        Inl (Runtime_error (''Designed germline mutations directory \"'' @ dir
                             @ ''\" is not a '' @ ''directory.''))
      else if \<not> exists w (get_file this) then
        Inl (Runtime_error (missing_file_message dir ''germline.csv''))
      else if \<not> exists w (get_population_file this) then
        Inl (Runtime_error (missing_file_message dir ''population.csv''))
      else if \<not> exists w (get_population_descriptions_file this) then
        Inl (Runtime_error (missing_file_message dir (''population_descr'' @ ''iptions.csv'')))
      else if \<not> exists w (get_alleles_file this) then
        Inl (Runtime_error (missing_file_message dir (''alleles_per_chr.'' @ ''csv'')))
      else Inr this)"

text \<open>A message names a text when the text occurs in it.\<close>

fun names :: "string \<Rightarrow> string \<Rightarrow> bool" where
  "names [] text = (text = [])"
| "names (c # message) text = (starts_with (c # message) text \<or> names message text)"

record GermlineSubject =
  name :: string
  population :: string
  super_population :: string
  gender :: string

text \<open>
  The reader of the RACES library is taken as given: opening anything but a regular file
  fails, and \<^verbatim>\<open>get_field\<close> fails on a column the row does not have.
\<close>

definition CSVReader :: "world \<Rightarrow> string \<Rightarrow> error + string list \<times> string list list" where
  "CSVReader w file =
     (case fs w file of
        Some (Regular header rows) \<Rightarrow> Inr (header, rows)
      | _ \<Rightarrow> Inl Library_error)"

definition get_field :: "string list \<Rightarrow> nat \<Rightarrow> error + string" where
  "get_field row i = (if i < length row then Inr (row ! i) else Inl Library_error)"

definition subject_of_row :: "string list \<Rightarrow> error + GermlineSubject" where
  "subject_of_row row =
     (case get_field row 0 of Inl e \<Rightarrow> Inl e | Inr f0 \<Rightarrow>
     (case get_field row 1 of Inl e \<Rightarrow> Inl e | Inr f1 \<Rightarrow>
     (case get_field row 2 of Inl e \<Rightarrow> Inl e | Inr f2 \<Rightarrow>
     (case get_field row 3 of Inl e \<Rightarrow> Inl e | Inr f3 \<Rightarrow>
        Inr \<lparr>name = f0, population = f1, super_population = f2, gender = f3\<rparr>))))"

fun population_loop :: "string list list \<Rightarrow> GermlineSubject list \<Rightarrow> error + GermlineSubject list" where
  "population_loop [] s_list = Inr s_list"
| "population_loop (row # rows) s_list =
     (case subject_of_row row of
        Inl e \<Rightarrow> Inl e
      | Inr s \<Rightarrow> population_loop rows (s_list @ [s]))"

definition get_population :: "world \<Rightarrow> GermlineStorage \<Rightarrow> error + GermlineSubject list" where
  "get_population w gs =
     (case CSVReader w (get_population_file gs) of
        Inl e \<Rightarrow> Inl e
      | Inr (header, rows) \<Rightarrow> population_loop rows [])"

fun subject_loop :: "string list list \<Rightarrow> string \<Rightarrow> error + GermlineSubject" where
  "subject_loop [] subject_name =
     Inl (Runtime_error (''Germline subject \"'' @ subject_name @ ''\" not available.''))"
| "subject_loop (row # rows) subject_name =
     (case get_field row 0 of
        Inl e \<Rightarrow> Inl e
      | Inr f0 \<Rightarrow>
          if f0 = subject_name then subject_of_row row
          else subject_loop rows subject_name)"

definition get_subject :: "world \<Rightarrow> GermlineStorage \<Rightarrow> string \<Rightarrow> error + GermlineSubject" where
  "get_subject w gs subject_name =
     (case CSVReader w (get_population_file gs) of
        Inl e \<Rightarrow> Inl e
      | Inr (header, rows) \<Rightarrow> subject_loop rows subject_name)"

text \<open>
  \<^verbatim>\<open>std::stoul\<close> in base ten: white space, an optional sign, then digits; no
  digit is \<^verbatim>\<open>std::invalid_argument\<close>, a value beyond \<^verbatim>\<open>unsigned long\<close> is
  \<^verbatim>\<open>std::out_of_range\<close>, and a minus sign negates modulo \<open>2 ^ 64\<close>.
\<close>

definition isspace :: "char \<Rightarrow> bool" where
  "isspace c = (let n = (of_char c :: nat) in n = 32 \<or> (9 \<le> n \<and> n \<le> 13))"

definition isdigit :: "char \<Rightarrow> bool" where
  "isdigit c = (let n = (of_char c :: nat) in 48 \<le> n \<and> n \<le> 57)"

definition digits_value :: "string \<Rightarrow> nat" where
  "digits_value ds = foldl (\<lambda>a c. 10 * a + (of_char c - 48)) 0 ds"

definition stoul :: "string \<Rightarrow> error + nat" where
  "stoul s =
     (let t = dropWhile isspace s;
          negative = (case t of [] \<Rightarrow> False | c # _ \<Rightarrow> c = CHR ''-'');
          u = (case t of [] \<Rightarrow> [] | c # r \<Rightarrow> if c = CHR ''-'' \<or> c = CHR ''+'' then r else t);
          ds = takeWhile isdigit u
      in if ds = [] then Inl Invalid_argument
         else if 2 ^ 64 \<le> digits_value ds then Inl Out_of_range
         else Inr (if negative then (2 ^ 64 - digits_value ds) mod 2 ^ 64 else digits_value ds))"

text \<open>\<^verbatim>\<open>std::map::insert\<close>: a key already present keeps its value.\<close>

definition map_insert :: "('k \<rightharpoonup> 'v) \<Rightarrow> 'k \<Rightarrow> 'v \<Rightarrow> ('k \<rightharpoonup> 'v)" where
  "map_insert m k v = (case m k of None \<Rightarrow> m(k \<mapsto> v) | Some _ \<Rightarrow> m)"

text \<open>
  One data row of \<^verbatim>\<open>alleles_per_chr.csv\<close>: the chromosome of the first field
  and the count in the column of the gender. \<^verbatim>\<open>GenomicPosition::stochr\<close>
  belongs to the RACES library and is a parameter.
\<close>

definition alleles_row ::
  "(string \<Rightarrow> error + nat) \<Rightarrow> nat \<Rightarrow> string list \<Rightarrow> error + nat \<times> nat" where
  "alleles_row stochr index row =
     (case get_field row 0 of Inl e \<Rightarrow> Inl e | Inr f0 \<Rightarrow>
     (case stochr f0 of Inl e \<Rightarrow> Inl e | Inr chr_id \<Rightarrow>
     (case get_field row index of Inl e \<Rightarrow> Inl e | Inr f \<Rightarrow>
     (case stoul f of Inl e \<Rightarrow> Inl e | Inr n \<Rightarrow> Inr (chr_id, n)))))"

fun alleles_loop ::
  "(string \<Rightarrow> error + nat) \<Rightarrow> nat \<Rightarrow> string list list \<Rightarrow> (nat \<rightharpoonup> nat)
     \<Rightarrow> error + (nat \<rightharpoonup> nat)" where
  "alleles_loop stochr index [] alleles_per_chromosome = Inr alleles_per_chromosome"
| "alleles_loop stochr index (row # rows) alleles_per_chromosome =
     (case alleles_row stochr index row of
        Inl e \<Rightarrow> Inl e
      | Inr (chr_id, n) \<Rightarrow>
          alleles_loop stochr index rows (map_insert alleles_per_chromosome chr_id n))"

definition get_alleles_per_chromosome ::
  "(string \<Rightarrow> error + nat) \<Rightarrow> world \<Rightarrow> GermlineStorage \<Rightarrow> string \<Rightarrow> error + (nat \<rightharpoonup> nat)" where
  "get_alleles_per_chromosome stochr w gs gender_name =
     (case CSVReader w (get_alleles_file gs) of
        Inl e \<Rightarrow> Inl e
      | Inr (header, rows) \<Rightarrow>
          (case first_index gender_name header of
             None \<Rightarrow> Inl (Runtime_error (''Unknown gender '' @ gender_name @ ''.''))
           | Some index \<Rightarrow> alleles_loop stochr index rows Map.empty))"

text \<open>
  The end of the constructor of \<^verbatim>\<open>GenomicDataStorage\<close>: the germline is
  retrieved, then the germline store is built over the resolved germline path.
\<close>

definition construct_germline_storage ::
  "GenomicDataStorage \<Rightarrow> world \<Rightarrow> (error + GermlineStorage) \<times> world" where
  "construct_germline_storage g w =
     (case retrieve_germline g w of
        (Inl e, w') \<Rightarrow> (Inl e, w')
      | (Inr _, w') \<Rightarrow>
          (let germline_path = get_germline_path g w' in
           case new_GermlineStorage w' germline_path of
             Inl e \<Rightarrow> (Inl e, w')
           | Inr germline_storage \<Rightarrow> (Inr germline_storage, w')))"

text \<open>
  The words of the specification: a signature kind is remote and not yet cached when
  its source is a URL, is not a local path, and its storage file is absent.
\<close>

definition remote_uncached :: "GenomicDataStorage \<Rightarrow> world \<Rightarrow> mutation_type \<Rightarrow> bool" where
  "remote_uncached g w k =
     (is_an_URL (get_signatures_src g k) \<and> \<not> exists w (get_signatures_src g k)
      \<and> \<not> exists w (signatures_storage_path g k))"

section \<open>Example inputs\<close>

definition example_storage :: GenomicDataStorage where
  "example_storage =
     \<lparr>directory = ''/data'',
      reference_src = ''https://host/genome.fa'',
      SBS_signatures_src = ''https://cancer.sanger.ac.uk/signatures/SBS.txt'',
      indel_signatures_src = ''https://host/indel.txt'',
      drivers_src = ''https://host/drivers.txt'',
      passenger_CNAs_src = ''/local/passenger_CNAs.txt'',
      germline_src = ''https://host/germline_data.tar.gz''\<rparr>"

text \<open>
  A host whose downloads succeed and write the destination file, and a host without
  network, whose downloads raise a condition. Both start with the storage directory
  only and R's default timeout of 60.
\<close>

definition online_world :: world where
  "online_world =
     \<lparr>fs = [''/data'' \<mapsto> Directory],
      timeout = 60,
      trace = [],
      download_f = (\<lambda>url dest t f. (None, f(dest \<mapsto> Regular [] []))),
      decompress_f = (\<lambda>tool file dest f. (None, (f(file := None))(dest \<mapsto> Regular [] []))),
      untar_f = (\<lambda>tarfile exdir f. (None, f)),
      cosmic_f = (\<lambda>username password d_list f. (None, f))\<rparr>"

definition offline_world :: world where
  "offline_world =
     \<lparr>fs = [''/data'' \<mapsto> Directory],
      timeout = 60,
      trace = [],
      download_f = (\<lambda>url dest t f. (Some ''cannot open URL'', f)),
      decompress_f = (\<lambda>tool file dest f. (None, f)),
      untar_f = (\<lambda>tarfile exdir f. (None, f)),
      cosmic_f = (\<lambda>username password d_list f. (Some ''cannot open URL'', f))\<rparr>"

text \<open>A germline directory with every required file but \<open>germlines.csv\<close>.\<close>

definition no_germlines_world :: world where
  "no_germlines_world =
     online_world\<lparr>fs :=
       [''/g'' \<mapsto> Directory,
        ''/g/population.csv'' \<mapsto> Regular [] [],
        ''/g/population_descriptions.csv'' \<mapsto> Regular [] [],
        ''/g/alleles_per_chr.csv'' \<mapsto> Regular [] []]\<rparr>"

text \<open>The example storage with an SBS source outside COSMIC.\<close>

definition plain_storage :: GenomicDataStorage where
  "plain_storage = example_storage\<lparr>SBS_signatures_src := ''https://host/SBS.txt''\<rparr>"

text \<open>A storage whose sources are all local files, and a host that has them.\<close>

definition local_storage :: GenomicDataStorage where
  "local_storage =
     \<lparr>directory = ''/data'',
      reference_src = ''/ref/hg38.fasta'',
      SBS_signatures_src = ''/sig/SBS.txt'',
      indel_signatures_src = ''/sig/indel.txt'',
      drivers_src = ''/mut/drivers.txt'',
      passenger_CNAs_src = ''/local/passenger_CNAs.txt'',
      germline_src = ''/g''\<rparr>"

definition local_world :: world where
  "local_world =
     online_world\<lparr>fs :=
       [''/data'' \<mapsto> Directory,
        ''/ref/hg38.fasta'' \<mapsto> Regular [] [],
        ''/sig/SBS.txt'' \<mapsto> Regular [] [],
        ''/sig/indel.txt'' \<mapsto> Regular [] [],
        ''/mut/drivers.txt'' \<mapsto> Regular [] [],
        ''/local/passenger_CNAs.txt'' \<mapsto> Regular [] [],
        ''/g'' \<mapsto> Directory]\<rparr>"

text \<open>A storage directory whose germline data holds \<open>germlines.csv\<close> and nothing else.\<close>

definition cached_world :: world where
  "cached_world =
     online_world\<lparr>fs :=
       [''/data'' \<mapsto> Directory,
        ''/data/germline_data'' \<mapsto> Directory,
        ''/data/germline_data/germlines.csv'' \<mapsto> Regular [] []]\<rparr>"

text \<open>
  A complete germline directory with two subjects and an alleles file in which the
  chromosome \<open>X\<close> has two rows; and the same directory with the two subjects under
  one name.
\<close>

definition population_world :: world where
  "population_world =
     online_world\<lparr>fs :=
       [''/g'' \<mapsto> Directory,
        ''/g/germlines.csv'' \<mapsto> Regular [] [],
        ''/g/population.csv'' \<mapsto>
          Regular [''sample'', ''pop'', ''super_pop'', ''gender'']
            [[''NA1'', ''GBR'', ''EUR'', ''male''], [''NA2'', ''YRI'', ''AFR'', ''female'']],
        ''/g/population_descriptions.csv'' \<mapsto> Regular [] [],
        ''/g/alleles_per_chr.csv'' \<mapsto>
          Regular [''chr'', ''male'', ''female'']
            [[''1'', ''2'', ''2''], [''X'', ''1'', ''2''], [''X'', ''7'', ''7'']]]\<rparr>"

definition duplicate_world :: world where
  "duplicate_world =
     population_world\<lparr>fs := (fs population_world)(''/g/population.csv'' \<mapsto>
          Regular [''sample'', ''pop'', ''super_pop'', ''gender'']
            [[''NA1'', ''GBR'', ''EUR'', ''male''], [''NA1'', ''YRI'', ''AFR'', ''female'']])\<rparr>"

text \<open>A stand-in for \<^verbatim>\<open>stochr\<close> in the examples: \<open>X\<close> and \<open>Y\<close> follow the autosomes.\<close>

definition example_stochr :: "string \<Rightarrow> error + nat" where
  "example_stochr s =
     (if s = ''X'' then Inr 23 else if s = ''Y'' then Inr 24
      else (case stoul s of Inl e \<Rightarrow> Inl Library_error | Inr n \<Rightarrow> Inr n))"

section \<open>Facts about positions\<close>

lemma first_index_None: "first_index c s = None \<longleftrightarrow> c \<notin> set s"
  by (induction s) auto

lemma first_index_Some:
  "first_index c s = Some i \<Longrightarrow> i < length s \<and> take i s = takeWhile (\<lambda>x. x \<noteq> c) s"
  by (induction s arbitrary: i) (auto split: if_splits)

lemma find_last_of_in:
  assumes "c \<in> set s"
  shows "find_last_of s c < length s
         \<and> drop (Suc (find_last_of s c)) s = rev (takeWhile (\<lambda>x. x \<noteq> c) (rev s))"
proof -
  from assms obtain j where j: "first_index c (rev s) = Some j"
    using first_index_None[of c "rev s"] by (cases "first_index c (rev s)") auto
  from first_index_Some[OF j]
  have jl: "j < length s" and tk: "take j (rev s) = takeWhile (\<lambda>x. x \<noteq> c) (rev s)"
    by auto
  have f: "find_last_of s c = length s - 1 - j"
    by (simp add: find_last_of_def j)
  have "Suc (length s - 1 - j) = length s - j"
    using jl by arith
  then have "drop (Suc (length s - 1 - j)) s = drop (length s - j) s"
    by simp
  also have "\<dots> = rev (take j (rev s))"
    by (simp add: take_rev)
  finally show ?thesis
    using f jl tk by simp
qed

lemma find_last_of_notin: "c \<notin> set s \<Longrightarrow> find_last_of s c = npos"
  using first_index_None[of c "rev s"] by (simp add: find_last_of_def)

lemma str_find_cut:
  assumes "length s < npos"
  shows "(if str_find s c \<noteq> npos then take (str_find s c) s else s)
         = takeWhile (\<lambda>x. x \<noteq> c) s"
proof (cases "first_index c s")
  case None
  then have "c \<notin> set s"
    by (simp add: first_index_None)
  then have tw: "takeWhile (\<lambda>x. x \<noteq> c) s = s"
    by (auto simp: takeWhile_eq_all_conv)
  show ?thesis
    by (simp add: str_find_def None tw)
next
  case (Some i)
  from first_index_Some[OF Some] assms show ?thesis
    by (simp add: str_find_def Some)
qed

section \<open>The destination path\<close>

lemma destination_body_cut:
  assumes "substr_from url (size_t_plus (find_last_of url CHR ''/'') 1) = Inr filename"
    and "length filename < npos"
  shows "destination_body g url = Inr (path_join (get_directory g) (strip_query filename))"
  using str_find_cut[OF assms(2), of "CHR ''?''"] assms(1)
  by (simp add: destination_body_def substr_def strip_query_def Let_def split: if_splits)

lemma name_occurrence_slash:
  assumes "CHR ''/'' \<in> set url" "length url < npos"
  shows "substr_from url (size_t_plus (find_last_of url CHR ''/'') 1)
         = Inr (after_last_slash url)"
proof -
  from find_last_of_in[OF assms(1)]
  have lt: "find_last_of url CHR ''/'' < length url"
    and dr: "drop (Suc (find_last_of url CHR ''/'')) url = after_last_slash url"
    by (simp_all add: after_last_slash_def)
  from lt assms(2) have "Suc (find_last_of url CHR ''/'') < 2 ^ 64"
    by (simp add: npos_def)
  then have "size_t_plus (find_last_of url CHR ''/'') 1 = Suc (find_last_of url CHR ''/'')"
    by (simp add: size_t_plus_def)
  with lt dr show ?thesis
    by (simp add: substr_from_def)
qed

text \<open>Without a \<open>/\<close> the search yields \<open>npos\<close>, and \<open>npos + 1\<close> wraps to position 0.\<close>

lemma name_occurrence_no_slash:
  assumes "CHR ''/'' \<notin> set url"
  shows "substr_from url (size_t_plus (find_last_of url CHR ''/'') 1) = Inr url"
  using find_last_of_notin[OF assms]
  by (simp add: substr_from_def size_t_plus_def npos_def)

lemma length_after_last_slash: "length (after_last_slash url) \<le> length url"
  unfolding after_last_slash_def using length_takeWhile_le[of _ "rev url"] by simp

lemmas destination_eval =
  get_destination_path_def destination_body_def find_last_of_def size_t_plus_def
  substr_from_def substr_def str_find_def npos_def

lemmas path_eval =
  path_join_def get_directory_def is_absolute_def has_filename_def

text \<open>
  What the function does with a source that has no \<open>/\<close>: the search yields \<open>npos\<close>,
  the sum wraps to position 0, and the whole string, cut at its first \<open>?\<close>, becomes the
  file name. (A \<^verbatim>\<open>std::string\<close> is shorter than \<open>npos\<close>.)
\<close>

lemma get_destination_path_without_slash:
  assumes "CHR ''/'' \<notin> set url" and "length url < npos"
  shows "get_destination_path g url = Inr (path_join (get_directory g) (strip_query url))"
  using destination_body_cut[OF name_occurrence_no_slash, of url g] assms
  by (simp add: get_destination_path_def)

text \<open>
  The handler that throws the error for an invalid URL is there, but no string enters
  it: neither \<^verbatim>\<open>substr\<close> can be out of range.
\<close>

lemma get_destination_path_handler_dead:
  assumes "length url < npos"
  shows "\<exists>p. get_destination_path g url = Inr p"
proof (cases "CHR ''/'' \<in> set url")
  case True
  from assms have "length (after_last_slash url) < npos"
    using length_after_last_slash[of url] by simp
  from destination_body_cut[OF name_occurrence_slash[OF True assms] this, of g]
  show ?thesis
    by (simp add: get_destination_path_def)
next
  case False
  from get_destination_path_without_slash[OF False assms, of g] show ?thesis
    by simp
qed

text \<open>
  The callers pass sources that \<^verbatim>\<open>is_an_URL\<close> accepts, and each of the three
  protocol prefixes has a \<open>/\<close>.
\<close>

lemma is_an_URL_has_slash:
  assumes "is_an_URL s"
  shows "CHR ''/'' \<in> set s"
proof -
  from assms
  have "\<exists>t \<in> set [''ftp://'', ''http://'', ''https://'']. take (length t) s = t"
    unfolding is_an_URL_def starts_with_def list_ex_iff .
  then obtain t where t: "t \<in> set [''ftp://'', ''http://'', ''https://'']"
    and s: "take (length t) s = t"
    by blast
  from t have "CHR ''/'' \<in> set t"
    by auto
  with s have "CHR ''/'' \<in> set (take (length t) s)"
    by simp
  then show ?thesis
    by (rule in_set_takeD)
qed


text \<open>
  C6. For a URL with at least one \<open>/\<close>, the destination is the storage directory joined
  with the text after the last \<open>/\<close>, cut at its first \<open>?\<close>; and the destination of
  \<open>https://host/dir/file.txt.gz?x=1\<close> is the directory joined with \<open>file.txt.gz\<close>.
\<close>

theorem get_destination_path_last_segment:
  "(CHR ''/'' \<in> set url \<and> length url < npos \<longrightarrow>
      get_destination_path g url
        = Inr (path_join (get_directory g) (strip_query (after_last_slash url))))
   \<and> get_destination_path g ''https://host/dir/file.txt.gz?x=1''
        = Inr (path_join (get_directory g) ''file.txt.gz'')"
proof (intro conjI impI)
  assume a: "CHR ''/'' \<in> set url \<and> length url < npos"
  then have "length (after_last_slash url) < npos"
    using length_after_last_slash[of url] by simp
  from destination_body_cut[OF name_occurrence_slash this] a
  show "get_destination_path g url
          = Inr (path_join (get_directory g) (strip_query (after_last_slash url)))"
    by (simp add: get_destination_path_def)
next
  show "get_destination_path g ''https://host/dir/file.txt.gz?x=1''
          = Inr (path_join (get_directory g) ''file.txt.gz'')"
    by (simp add: destination_eval)
qed

theorem get_destination_path_last_segment_witness:
  "CHR ''/'' \<in> set ''ftp://host/pub/hg38.fa.gz?v=2''
   \<and> length ''ftp://host/pub/hg38.fa.gz?v=2'' < npos
   \<and> get_destination_path example_storage ''ftp://host/pub/hg38.fa.gz?v=2''
       = Inr ''/data/hg38.fa.gz''"
  using get_destination_path_last_segment[of "''ftp://host/pub/hg38.fa.gz?v=2''" example_storage]
  by (simp add: npos_def strip_query_def after_last_slash_def path_eval example_storage_def)

section \<open>Downloads and the timeout option\<close>

lemmas world_eval =
  exists_def is_directory_def create_directory_def rename_def download_file_def
  storage_download_file_def is_an_URL_def starts_with_def parent_path_def

text \<open>
  Whatever happens, \<^verbatim>\<open>download.file\<close> is called at most once, and then with a
  timeout of at least 1000.
\<close>

lemma download_file_trace:
  "trace (snd (download_file w url dest)) = trace w
   \<or> trace (snd (download_file w url dest))
       = trace w @ [Download_file url dest (max 1000 (timeout w))]"
  by (auto simp: download_file_def create_directory_def Let_def
           split: sum.splits prod.splits option.splits if_splits)

lemma download_file_returns_restored:
  "download_file w url dest = (Inr u, w') \<Longrightarrow> timeout w' = timeout w"
  by (auto simp: download_file_def create_directory_def Let_def
           split: sum.splits prod.splits option.splits if_splits)

text \<open>
  C2. The claim holds on the normal return, but not when \<^verbatim>\<open>download.file\<close> raises:
  the statement that reverts the option is skipped. Without network, starting from a
  timeout of 60, the routine leaves by an error and the timeout stays at 1000.
\<close>

theorem download_file_error_keeps_raised_timeout:
  "download_file offline_world ''https://host/drivers.txt'' ''/data/drivers.txt''
     = (Inl (R_error ''cannot open URL''),
        offline_world\<lparr>timeout := 1000,
                      trace := [Download_file ''https://host/drivers.txt''
                                  ''/data/drivers.txt'' 1000]\<rparr>)
   \<and> timeout offline_world = 60"
  by (simp add: world_eval offline_world_def)

section \<open>The reference genome\<close>

text \<open>The test \<open>suffix = fa \<and> suffix = fasta\<close> never holds, so nothing is ever renamed.\<close>

lemma install_reference_fasta_suffix:
  assumes "substr_from downloaded_file
             (size_t_plus (find_last_of downloaded_file CHR ''.'') 1) = Inr suffix"
    and "suffix = ''fa'' \<or> suffix = ''fasta''"
  shows "install_reference w downloaded_file reference_filename
         = (Inl (Runtime_error (''Unknown suffix \"'' @ suffix @ ''\"'')), w)"
  using assms by (auto simp: install_reference_def decompressors_def)

text \<open>Any other suffix goes through the table, as intended.\<close>

lemma install_reference_known_suffix:
  assumes "substr_from downloaded_file
             (size_t_plus (find_last_of downloaded_file CHR ''.'') 1) = Inr suffix"
    and "decompressors suffix = Some tool"
  shows "tool \<in> {''gunzip'', ''bunzip2''}
         \<and> install_reference w downloaded_file reference_filename
             = (case decompress w tool downloaded_file reference_filename of
                  (Inl e, w') \<Rightarrow> (Inl e, w')
                | (Inr u, w') \<Rightarrow> (Inr reference_filename, w'))"
  using assms by (auto simp: install_reference_def decompressors_def split: if_splits)

lemma install_reference_unknown_suffix:
  assumes "substr_from downloaded_file
             (size_t_plus (find_last_of downloaded_file CHR ''.'') 1) = Inr suffix"
    and "decompressors suffix = None"
  shows "install_reference w downloaded_file reference_filename
           = (Inl (Runtime_error (''Unknown suffix \"'' @ suffix @ ''\"'')), w)"
  using assms by (auto simp: install_reference_def)

text \<open>
  C1. The claim fails on the code for the suffixes \<open>fa\<close> and \<open>fasta\<close>: a reference
  downloaded from \<open>https://host/genome.fa\<close> is not renamed to \<open>reference.fasta\<close>;
  retrieval stops with the error for an unknown suffix, the file left where it was
  downloaded.
\<close>

theorem retrieve_reference_fa_unknown_suffix:
  "retrieve_reference example_storage online_world
     = (Inl (Runtime_error ''Unknown suffix \"fa\"''),
        online_world\<lparr>fs := [''/data'' \<mapsto> Directory, ''/data/genome.fa'' \<mapsto> Regular [] []],
                     trace := [Download_file ''https://host/genome.fa''
                                 ''/data/genome.fa'' 1000]\<rparr>)"
  by (simp add: retrieve_reference_def install_reference_def get_reference_path_def
        reference_storage_path_def decompressors_def world_eval destination_eval path_eval
        example_storage_def online_world_def)

section \<open>Construction of the germline store\<close>

lemmas germline_files =
  get_file_def get_population_file_def get_population_descriptions_file_def
  get_alleles_file_def

lemma starts_with_names: "starts_with s text \<Longrightarrow> names s text"
  by (cases s) (auto simp: starts_with_def)

lemma names_append: "names (a @ text @ b) text"
proof (induction a)
  case Nil
  have "starts_with (text @ b) text"
    by (simp add: starts_with_def)
  then show ?case
    by (simp add: starts_with_names)
next
  case (Cons c a)
  then show ?case by simp
qed

lemma is_directory_exists: "is_directory w p \<Longrightarrow> exists w p"
  by (simp add: is_directory_def exists_def)

lemma missing_file_message_names:
  "names (missing_file_message dir file) dir \<and> names (missing_file_message dir file) file"
proof
  have "names (''Designed germline mutations directory \"'' @ dir
               @ (''\" does not '' @ ''contains the file \"'' @ file @ ''\".'')) dir"
    by (rule names_append)
  then show "names (missing_file_message dir file) dir"
    by (simp add: missing_file_message_def)
  have "names ((''Designed germline mutations directory \"'' @ dir @ ''\" does not ''
                @ ''contains the file \"'') @ file @ ''\".'') file"
    by (rule names_append)
  then show "names (missing_file_message dir file) file"
    by (simp add: missing_file_message_def)
qed

lemma new_GermlineStorage_not_found:
  "\<not> exists w dir \<Longrightarrow>
     new_GermlineStorage w dir
       = Inl (Runtime_error (''Designed germline mutations directory \"'' @ dir
                              @ ''\" does not exist.''))"
  by (simp add: new_GermlineStorage_def)

lemma new_GermlineStorage_not_a_directory:
  "exists w dir \<Longrightarrow> \<not> is_directory w dir \<Longrightarrow>
     new_GermlineStorage w dir
       = Inl (Runtime_error (''Designed germline mutations directory \"'' @ dir
                              @ ''\" is not a directory.''))"
  by (simp add: new_GermlineStorage_def)

lemma new_GermlineStorage_complete:
  "is_directory w dir \<Longrightarrow> exists w (get_file (GermlineStorage dir)) \<Longrightarrow>
   exists w (get_population_file (GermlineStorage dir)) \<Longrightarrow>
   exists w (get_population_descriptions_file (GermlineStorage dir)) \<Longrightarrow>
   exists w (get_alleles_file (GermlineStorage dir)) \<Longrightarrow>
     new_GermlineStorage w dir = Inr (GermlineStorage dir)"
  by (simp add: new_GermlineStorage_def Let_def is_directory_exists)

lemma new_GermlineStorage_missing_other:
  assumes "is_directory w dir" and "exists w (get_file (GermlineStorage dir))"
    and "\<not> exists w (get_population_file (GermlineStorage dir))
         \<or> \<not> exists w (get_population_descriptions_file (GermlineStorage dir))
         \<or> \<not> exists w (get_alleles_file (GermlineStorage dir))"
  shows "new_GermlineStorage w dir
         \<in> {Inl (Runtime_error (missing_file_message dir ''population.csv'')),
            Inl (Runtime_error (missing_file_message dir ''population_descriptions.csv'')),
            Inl (Runtime_error (missing_file_message dir ''alleles_per_chr.csv''))}"
  using assms by (auto simp: new_GermlineStorage_def Let_def is_directory_exists)

text \<open>
  C3. The claim fails on the code when the missing file is \<open>germlines.csv\<close>: the file
  looked for is \<open>germlines.csv\<close>, but the error names \<open>germline.csv\<close>, which is not
  the name of the missing file.
\<close>

theorem new_GermlineStorage_names_wrong_file:
  "new_GermlineStorage no_germlines_world ''/g''
     = Inl (Runtime_error (missing_file_message ''/g'' ''germline.csv''))
   \<and> get_file (GermlineStorage ''/g'') = ''/g/germlines.csv''
   \<and> \<not> exists no_germlines_world ''/g/germlines.csv''
   \<and> \<not> names (missing_file_message ''/g'' ''germline.csv'') ''germlines.csv''"
  by (simp add: new_GermlineStorage_def germline_files missing_file_message_def
        world_eval path_eval no_germlines_world_def online_world_def)

section \<open>The signature batch\<close>

lemma collect_result:
  assumes "collect_signatures_download_list g w k l = Inr l'"
  shows "l' = l @ map (\<lambda>k. (get_signatures_src g k, signatures_storage_path g k))
                   (filter (remote_uncached g w) [k])"
  using assms
  by (auto simp: collect_signatures_download_list_def remote_uncached_def Let_def
           split: if_splits)

lemma signatures_download_list_result:
  assumes "signatures_download_list g w = Inr l"
  shows "l = map (\<lambda>k. (get_signatures_src g k, signatures_storage_path g k))
               (filter (remote_uncached g w) [SBSType, IDType])"
proof -
  from assms obtain l1
    where 1: "collect_signatures_download_list g w SBSType [] = Inr l1"
      and 2: "collect_signatures_download_list g w IDType l1 = Inr l"
    by (auto simp: signatures_download_list_def split: sum.splits)
  from collect_result[OF 1] collect_result[OF 2] show ?thesis
    by simp
qed

text \<open>
  C4. The download list holds the remote, not yet cached SBS and indel sources, in this
  order. If one of its sources matches the COSMIC pattern, the whole list goes to the
  authenticated path: without an account retrieval stops with the message that asks for
  one, and with an account one COSMIC session receives the entire list. If none
  matches, the result is that of the plain downloads, entry by entry, whatever the
  account, null included.
\<close>

theorem retrieve_signatures_batch:
  assumes "signatures_download_list g w = Inr l"
  shows "l = map (\<lambda>k. (get_signatures_src g k, signatures_storage_path g k))
               (filter (remote_uncached g w) [SBSType, IDType])
    \<and> (signatures_from_COSMIC l \<longleftrightarrow> (\<exists>(src, dst) \<in> set l. COSMIC_site_regex src))
    \<and> (signatures_from_COSMIC l \<longrightarrow>
          retrieve_signatures g w None = (Inl (R_error COSMIC_account_message), w)
          \<and> (\<forall>a. retrieve_signatures g w (Some a) = download_COSMIC w (Some a) l
                \<and> trace (snd (retrieve_signatures g w (Some a)))
                    = trace w @ [COSMIC_session (get_username a) (get_password a) l]))
    \<and> (\<not> signatures_from_COSMIC l \<longrightarrow>
          (\<forall>account. retrieve_signatures g w account = download_each w l))"
proof (intro conjI impI allI)
  show "l = map (\<lambda>k. (get_signatures_src g k, signatures_storage_path g k))
              (filter (remote_uncached g w) [SBSType, IDType])"
    by (rule signatures_download_list_result[OF assms])
next
  show "signatures_from_COSMIC l \<longleftrightarrow> (\<exists>(src, dst) \<in> set l. COSMIC_site_regex src)"
    by (simp add: signatures_from_COSMIC_def list_ex_iff)
next
  assume "signatures_from_COSMIC l"
  then show "retrieve_signatures g w None = (Inl (R_error COSMIC_account_message), w)"
    using assms by (simp add: retrieve_signatures_def download_COSMIC_def)
next
  fix a
  assume c: "signatures_from_COSMIC l"
  then show "retrieve_signatures g w (Some a) = download_COSMIC w (Some a) l"
    using assms by (simp add: retrieve_signatures_def)
  from c show "trace (snd (retrieve_signatures g w (Some a)))
                 = trace w @ [COSMIC_session (get_username a) (get_password a) l]"
    using assms
    by (simp add: retrieve_signatures_def download_COSMIC_def Let_def
             split: prod.splits option.splits)
next
  fix account
  assume "\<not> signatures_from_COSMIC l"
  then show "retrieve_signatures g w account = download_each w l"
    using assms by (simp add: retrieve_signatures_def)
qed

lemmas regex_eval =
  signatures_from_COSMIC_def COSMIC_site_regex_def starts_with_def host_char_def any_char_def

lemmas collect_eval =
  signatures_download_list_def collect_signatures_download_list_def

theorem retrieve_signatures_batch_witness:
  "signatures_download_list example_storage online_world
     = Inr [(''https://cancer.sanger.ac.uk/signatures/SBS.txt'', ''/data/SBS_signatures.txt''),
            (''https://host/indel.txt'', ''/data/indel_signatures.txt'')]
   \<and> signatures_from_COSMIC
        [(''https://cancer.sanger.ac.uk/signatures/SBS.txt'', ''/data/SBS_signatures.txt''),
         (''https://host/indel.txt'', ''/data/indel_signatures.txt'')]
   \<and> retrieve_signatures example_storage online_world None
       = (Inl (R_error COSMIC_account_message), online_world)
   \<and> signatures_download_list plain_storage online_world
       = Inr [(''https://host/SBS.txt'', ''/data/SBS_signatures.txt''),
              (''https://host/indel.txt'', ''/data/indel_signatures.txt'')]
   \<and> \<not> signatures_from_COSMIC
          [(''https://host/SBS.txt'', ''/data/SBS_signatures.txt''),
           (''https://host/indel.txt'', ''/data/indel_signatures.txt'')]
   \<and> retrieve_signatures plain_storage online_world None
       = (Inr (),
          online_world\<lparr>fs := [''/data'' \<mapsto> Directory,
                               ''/data/SBS_signatures.txt'' \<mapsto> Regular [] [],
                               ''/data/indel_signatures.txt'' \<mapsto> Regular [] []],
                       trace := [Download_file ''https://host/SBS.txt''
                                   ''/data/SBS_signatures.txt'' 1000,
                                 Download_file ''https://host/indel.txt''
                                   ''/data/indel_signatures.txt'' 1000]\<rparr>)"
proof -
  have l1: "signatures_download_list example_storage online_world
     = Inr [(''https://cancer.sanger.ac.uk/signatures/SBS.txt'', ''/data/SBS_signatures.txt''),
            (''https://host/indel.txt'', ''/data/indel_signatures.txt'')]"
    by (simp add: collect_eval world_eval path_eval example_storage_def online_world_def)
  have l2: "signatures_download_list plain_storage online_world
       = Inr [(''https://host/SBS.txt'', ''/data/SBS_signatures.txt''),
              (''https://host/indel.txt'', ''/data/indel_signatures.txt'')]"
    by (simp add: collect_eval world_eval path_eval plain_storage_def example_storage_def
          online_world_def)
  have c1: "signatures_from_COSMIC
        [(''https://cancer.sanger.ac.uk/signatures/SBS.txt'', ''/data/SBS_signatures.txt''),
         (''https://host/indel.txt'', ''/data/indel_signatures.txt'')]"
    by (simp add: regex_eval)
  have c2: "\<not> signatures_from_COSMIC
          [(''https://host/SBS.txt'', ''/data/SBS_signatures.txt''),
           (''https://host/indel.txt'', ''/data/indel_signatures.txt'')]"
    by (simp add: regex_eval)
  have d: "download_each online_world
             [(''https://host/SBS.txt'', ''/data/SBS_signatures.txt''),
              (''https://host/indel.txt'', ''/data/indel_signatures.txt'')]
       = (Inr (),
          online_world\<lparr>fs := [''/data'' \<mapsto> Directory,
                               ''/data/SBS_signatures.txt'' \<mapsto> Regular [] [],
                               ''/data/indel_signatures.txt'' \<mapsto> Regular [] []],
                       trace := [Download_file ''https://host/SBS.txt''
                                   ''/data/SBS_signatures.txt'' 1000,
                                 Download_file ''https://host/indel.txt''
                                   ''/data/indel_signatures.txt'' 1000]\<rparr>)"
    by (simp add: world_eval online_world_def)
  from retrieve_signatures_batch[OF l1] c1
  have r1: "retrieve_signatures example_storage online_world None
              = (Inl (R_error COSMIC_account_message), online_world)"
    by blast
  from retrieve_signatures_batch[OF l2] c2
  have "retrieve_signatures plain_storage online_world None
          = download_each online_world
              [(''https://host/SBS.txt'', ''/data/SBS_signatures.txt''),
               (''https://host/indel.txt'', ''/data/indel_signatures.txt'')]"
    by blast
  with d
  have r2: "retrieve_signatures plain_storage online_world None
       = (Inr (),
          online_world\<lparr>fs := [''/data'' \<mapsto> Directory,
                               ''/data/SBS_signatures.txt'' \<mapsto> Regular [] [],
                               ''/data/indel_signatures.txt'' \<mapsto> Regular [] []],
                       trace := [Download_file ''https://host/SBS.txt''
                                   ''/data/SBS_signatures.txt'' 1000,
                                 Download_file ''https://host/indel.txt''
                                   ''/data/indel_signatures.txt'' 1000]\<rparr>)"
    by (simp only:)
  from l1 l2 c1 c2 r1 r2 show ?thesis
    by blast
qed

section \<open>Local sources\<close>

lemma signatures_storage_path_inj:
  "signatures_storage_path g k = signatures_storage_path g k' \<Longrightarrow> k = k'"
  by (cases k; cases k'; cases "has_filename (get_directory g)")
     (simp_all add: path_join_def is_absolute_def)

lemma local_signature_not_queued:
  assumes "exists w (get_signatures_src g k)" and "signatures_download_list g w = Inr l"
  shows "get_signatures_src g k \<notin> fst ` set l \<and> signatures_storage_path g k \<notin> snd ` set l"
proof -
  have l: "l = map (\<lambda>k. (get_signatures_src g k, signatures_storage_path g k))
               (filter (remote_uncached g w) [SBSType, IDType])"
    by (rule signatures_download_list_result[OF assms(2)])
  have nk: "\<not> remote_uncached g w k"
    using assms(1) by (simp add: remote_uncached_def)
  have a: "get_signatures_src g k \<noteq> get_signatures_src g k'"
    if "remote_uncached g w k'" for k'
    using that assms(1) by (auto simp: remote_uncached_def)
  have b: "signatures_storage_path g k \<noteq> signatures_storage_path g k'"
    if "remote_uncached g w k'" for k'
    using that nk signatures_storage_path_inj[of g k k'] by auto
  have m: "\<exists>k'. remote_uncached g w k'
                \<and> p = (get_signatures_src g k', signatures_storage_path g k')"
    if "p \<in> set l" for p
  proof -
    from that
    have "p \<in> (\<lambda>k. (get_signatures_src g k, signatures_storage_path g k))
                ` {k \<in> set [SBSType, IDType]. remote_uncached g w k}"
      unfolding l by (simp only: set_map set_filter)
    then show ?thesis by blast
  qed
  show ?thesis
  proof (intro conjI notI)
    assume "get_signatures_src g k \<in> fst ` set l"
    then obtain p where p: "p \<in> set l" and e: "get_signatures_src g k = fst p"
      by auto
    from m[OF p] obtain k' where r: "remote_uncached g w k'"
      and q: "p = (get_signatures_src g k', signatures_storage_path g k')"
      by blast
    from a[OF r] e q show False by simp
  next
    assume "signatures_storage_path g k \<in> snd ` set l"
    then obtain p where p: "p \<in> set l" and e: "signatures_storage_path g k = snd p"
      by auto
    from m[OF p] obtain k' where r: "remote_uncached g w k'"
      and q: "p = (get_signatures_src g k', signatures_storage_path g k')"
      by blast
    from b[OF r] e q show False by simp
  qed
qed

text \<open>
  C7. When the configured source of a dataset exists as a local path, the accessor of
  its resolved path returns the source itself, and its retrieval routine returns with
  the host untouched: no download, no file written. For the reference, the drivers, the
  passenger CNAs and the germline this is the routine of that dataset. The two
  signature kinds share \<^verbatim>\<open>retrieve_signatures\<close>: a kind with a local source adds
  nothing to the download list, neither its source nor its storage file is ever in the
  list, and with both kinds local the routine returns with the host untouched.
\<close>

theorem local_source_short_circuits:
  "(exists w (reference_src g) \<longrightarrow>
      get_reference_path g w = reference_src g
      \<and> retrieve_reference g w = (Inr (reference_src g), w))
 \<and> (exists w (drivers_src g) \<longrightarrow>
      get_driver_mutations_path g w = drivers_src g
      \<and> retrieve_drivers g w = (Inr (), w))
 \<and> (exists w (passenger_CNAs_src g) \<longrightarrow>
      get_passenger_CNAs_path g w = passenger_CNAs_src g
      \<and> retrieve_passenger_CNAs g w = (Inr (), w))
 \<and> (exists w (germline_src g) \<longrightarrow>
      get_germline_path g w = germline_src g
      \<and> retrieve_germline g w = (Inr (), w))
 \<and> (exists w (get_signatures_src g k) \<longrightarrow>
      get_signatures_path g w k = get_signatures_src g k
      \<and> collect_signatures_download_list g w k l = Inr l
      \<and> (\<forall>l'. signatures_download_list g w = Inr l' \<longrightarrow>
            get_signatures_src g k \<notin> fst ` set l'
            \<and> signatures_storage_path g k \<notin> snd ` set l'))
 \<and> (exists w (SBS_signatures_src g) \<and> exists w (indel_signatures_src g) \<longrightarrow>
      retrieve_signatures g w account = (Inr (), w))"
proof (intro conjI impI allI)
  assume "exists w (reference_src g)"
  then show "get_reference_path g w = reference_src g"
    and "retrieve_reference g w = (Inr (reference_src g), w)"
    by (simp_all add: retrieve_reference_def get_reference_path_def)
next
  assume "exists w (drivers_src g)"
  then show "get_driver_mutations_path g w = drivers_src g"
    and "retrieve_drivers g w = (Inr (), w)"
    by (simp_all add: retrieve_drivers_def get_driver_mutations_path_def)
next
  assume "exists w (passenger_CNAs_src g)"
  then show "get_passenger_CNAs_path g w = passenger_CNAs_src g"
    and "retrieve_passenger_CNAs g w = (Inr (), w)"
    by (simp_all add: retrieve_passenger_CNAs_def get_passenger_CNAs_path_def)
next
  assume "exists w (germline_src g)"
  then show "get_germline_path g w = germline_src g"
    and "retrieve_germline g w = (Inr (), w)"
    by (simp_all add: retrieve_germline_def get_germline_path_def)
next
  assume e: "exists w (get_signatures_src g k)"
  then show "get_signatures_path g w k = get_signatures_src g k"
    by (simp add: get_signatures_path_def)
  from e show "collect_signatures_download_list g w k l = Inr l"
    by (simp add: collect_signatures_download_list_def Let_def)
  fix l'
  assume "signatures_download_list g w = Inr l'"
  from local_signature_not_queued[OF e this]
  show "get_signatures_src g k \<notin> fst ` set l'"
    and "signatures_storage_path g k \<notin> snd ` set l'"
    by simp_all
next
  assume "exists w (SBS_signatures_src g) \<and> exists w (indel_signatures_src g)"
  then have "signatures_download_list g w = Inr []"
    by (simp add: signatures_download_list_def collect_signatures_download_list_def Let_def)
  then show "retrieve_signatures g w account = (Inr (), w)"
    by (simp add: retrieve_signatures_def signatures_from_COSMIC_def)
qed

theorem local_source_short_circuits_witness:
  "exists local_world (reference_src local_storage)
   \<and> get_reference_path local_storage local_world = ''/ref/hg38.fasta''
   \<and> retrieve_reference local_storage local_world = (Inr ''/ref/hg38.fasta'', local_world)
   \<and> exists local_world (drivers_src local_storage)
   \<and> get_driver_mutations_path local_storage local_world = ''/mut/drivers.txt''
   \<and> retrieve_drivers local_storage local_world = (Inr (), local_world)
   \<and> exists local_world (passenger_CNAs_src local_storage)
   \<and> get_passenger_CNAs_path local_storage local_world = ''/local/passenger_CNAs.txt''
   \<and> retrieve_passenger_CNAs local_storage local_world = (Inr (), local_world)
   \<and> exists local_world (germline_src local_storage)
   \<and> get_germline_path local_storage local_world = ''/g''
   \<and> retrieve_germline local_storage local_world = (Inr (), local_world)
   \<and> exists local_world (get_signatures_src local_storage SBSType)
   \<and> exists local_world (get_signatures_src local_storage IDType)
   \<and> get_signatures_path local_storage local_world SBSType = ''/sig/SBS.txt''
   \<and> collect_signatures_download_list local_storage local_world SBSType [] = Inr []
   \<and> retrieve_signatures local_storage local_world None = (Inr (), local_world)"
proof -
  have e: "exists local_world (reference_src local_storage)"
    "exists local_world (drivers_src local_storage)"
    "exists local_world (passenger_CNAs_src local_storage)"
    "exists local_world (germline_src local_storage)"
    "exists local_world (get_signatures_src local_storage SBSType)"
    "exists local_world (get_signatures_src local_storage IDType)"
    by (simp_all add: exists_def local_world_def local_storage_def)
  have s: "reference_src local_storage = ''/ref/hg38.fasta''"
    "drivers_src local_storage = ''/mut/drivers.txt''"
    "passenger_CNAs_src local_storage = ''/local/passenger_CNAs.txt''"
    "germline_src local_storage = ''/g''"
    "get_signatures_src local_storage SBSType = ''/sig/SBS.txt''"
    "SBS_signatures_src local_storage = ''/sig/SBS.txt''"
    "indel_signatures_src local_storage = ''/sig/indel.txt''"
    by (simp_all add: local_storage_def)
  from local_source_short_circuits[of local_world local_storage SBSType "[]" None] e s
  show ?thesis
    by simp
qed

section \<open>The germline cache test\<close>

lemma download_file_returns_trace:
  "download_file w url dest = (Inr u, w') \<Longrightarrow>
     trace w' = trace w @ [Download_file url dest (max 1000 (timeout w))]"
  by (auto simp: download_file_def create_directory_def Let_def
           split: sum.splits prod.splits option.splits if_splits)

lemma storage_download_file_returns_trace:
  "storage_download_file g w url = (Inr dest, w') \<Longrightarrow>
     trace w' = trace w @ [Download_file url dest (max 1000 (timeout w))]"
  by (auto simp: storage_download_file_def dest: download_file_returns_trace
           split: sum.splits prod.splits)

lemma untar_trace: "trace (snd (untar w tarfile exdir)) = trace w @ [Untar tarfile exdir]"
  by (simp add: untar_def Let_def split: prod.splits option.splits)

lemma retrieve_germline_downloads:
  assumes "\<not> exists w (germline_src g)" and "is_an_URL (germline_src g)"
    and "\<not> exists w (path_join (germline_storage_path g) ''germlines.csv'')"
    and "fst (retrieve_germline g w) = Inr ()"
  shows "\<exists>dest. trace (snd (retrieve_germline g w))
           = trace w @ [Download_file (germline_src g) dest (max 1000 (timeout w)),
                        Untar dest (directory g)]"
proof (cases "storage_download_file g w (germline_src g)")
  case (Pair r w')
  show ?thesis
  proof (cases r)
    case (Inl e)
    with Pair assms show ?thesis
      by (simp add: retrieve_germline_def)
  next
    case (Inr dest)
    with Pair assms have "retrieve_germline g w = untar w' dest (directory g)"
      by (simp add: retrieve_germline_def)
    moreover from Pair Inr
    have "trace w' = trace w @ [Download_file (germline_src g) dest (max 1000 (timeout w))]"
      by (simp add: storage_download_file_returns_trace)
    ultimately show ?thesis
      by (simp add: untar_trace)
  qed
qed

text \<open>
  C9. For a remote germline source that is not a local path, the germline counts as
  cached exactly when \<open>germline_data/germlines.csv\<close> exists under the storage
  directory: then \<^verbatim>\<open>retrieve_germline\<close> returns with the host untouched, whatever
  else the directory holds; otherwise it does not, and a normal return has downloaded
  the source and unpacked it. When \<open>germlines.csv\<close> is there but another required file
  is missing, nothing is downloaded and the construction of the germline store that
  follows fails with the error for the missing file.
\<close>

theorem retrieve_germline_cache_test:
  assumes "\<not> exists w (germline_src g)" and "is_an_URL (germline_src g)"
  shows "(exists w (path_join (germline_storage_path g) ''germlines.csv'') \<longrightarrow>
            retrieve_germline g w = (Inr (), w))
    \<and> (\<not> exists w (path_join (germline_storage_path g) ''germlines.csv'') \<longrightarrow>
          retrieve_germline g w \<noteq> (Inr (), w)
          \<and> (fst (retrieve_germline g w) = Inr () \<longrightarrow>
               (\<exists>dest. trace (snd (retrieve_germline g w))
                  = trace w @ [Download_file (germline_src g) dest (max 1000 (timeout w)),
                               Untar dest (directory g)])))
    \<and> (exists w (path_join (germline_storage_path g) ''germlines.csv'')
        \<and> is_directory w (germline_storage_path g)
        \<and> (\<not> exists w (path_join (germline_storage_path g) ''population.csv'')
           \<or> \<not> exists w (path_join (germline_storage_path g) ''population_descriptions.csv'')
           \<or> \<not> exists w (path_join (germline_storage_path g) ''alleles_per_chr.csv''))
        \<longrightarrow> construct_germline_storage g w
            \<in> {(Inl (Runtime_error (missing_file_message (germline_storage_path g)
                                      ''population.csv'')), w),
               (Inl (Runtime_error (missing_file_message (germline_storage_path g)
                                      ''population_descriptions.csv'')), w),
               (Inl (Runtime_error (missing_file_message (germline_storage_path g)
                                      ''alleles_per_chr.csv'')), w)})"
proof (intro conjI impI)
  assume "exists w (path_join (germline_storage_path g) ''germlines.csv'')"
  with assms show "retrieve_germline g w = (Inr (), w)"
    by (simp add: retrieve_germline_def)
next
  assume n: "\<not> exists w (path_join (germline_storage_path g) ''germlines.csv'')"
  show "retrieve_germline g w \<noteq> (Inr (), w)"
  proof
    assume r: "retrieve_germline g w = (Inr (), w)"
    then have "fst (retrieve_germline g w) = Inr ()"
      by simp
    from retrieve_germline_downloads[OF assms n this] r show False
      by simp
  qed
next
  assume "\<not> exists w (path_join (germline_storage_path g) ''germlines.csv'')"
    and "fst (retrieve_germline g w) = Inr ()"
  then show "\<exists>dest. trace (snd (retrieve_germline g w))
                  = trace w @ [Download_file (germline_src g) dest (max 1000 (timeout w)),
                               Untar dest (directory g)]"
    using retrieve_germline_downloads[OF assms] by blast
next
  assume a: "exists w (path_join (germline_storage_path g) ''germlines.csv'')
        \<and> is_directory w (germline_storage_path g)
        \<and> (\<not> exists w (path_join (germline_storage_path g) ''population.csv'')
           \<or> \<not> exists w (path_join (germline_storage_path g) ''population_descriptions.csv'')
           \<or> \<not> exists w (path_join (germline_storage_path g) ''alleles_per_chr.csv''))"
  with assms have r: "retrieve_germline g w = (Inr (), w)"
    by (simp add: retrieve_germline_def)
  from assms have p: "get_germline_path g w = germline_storage_path g"
    by (simp add: get_germline_path_def)
  from a new_GermlineStorage_missing_other[of w "germline_storage_path g"]
  have "new_GermlineStorage w (germline_storage_path g)
         \<in> {Inl (Runtime_error (missing_file_message (germline_storage_path g)
                                  ''population.csv'')),
            Inl (Runtime_error (missing_file_message (germline_storage_path g)
                                  ''population_descriptions.csv'')),
            Inl (Runtime_error (missing_file_message (germline_storage_path g)
                                  ''alleles_per_chr.csv''))}"
    by (simp add: germline_files)
  with r p show "construct_germline_storage g w
            \<in> {(Inl (Runtime_error (missing_file_message (germline_storage_path g)
                                      ''population.csv'')), w),
               (Inl (Runtime_error (missing_file_message (germline_storage_path g)
                                      ''population_descriptions.csv'')), w),
               (Inl (Runtime_error (missing_file_message (germline_storage_path g)
                                      ''alleles_per_chr.csv'')), w)}"
    by (auto simp: construct_germline_storage_def)
qed

theorem retrieve_germline_cache_test_witness:
  "\<not> exists cached_world (germline_src example_storage)
   \<and> is_an_URL (germline_src example_storage)
   \<and> exists cached_world ''/data/germline_data/germlines.csv''
   \<and> \<not> exists cached_world ''/data/germline_data/population.csv''
   \<and> retrieve_germline example_storage cached_world = (Inr (), cached_world)
   \<and> construct_germline_storage example_storage cached_world
       = (Inl (Runtime_error (missing_file_message ''/data/germline_data''
                                ''population.csv'')), cached_world)
   \<and> \<not> exists online_world ''/data/germline_data/germlines.csv''
   \<and> retrieve_germline example_storage online_world \<noteq> (Inr (), online_world)"
proof -
  have h1: "\<not> exists cached_world (germline_src example_storage)"
    by (simp add: exists_def cached_world_def example_storage_def)
  have h1': "\<not> exists online_world (germline_src example_storage)"
    by (simp add: exists_def online_world_def example_storage_def)
  have h2: "is_an_URL (germline_src example_storage)"
    by (simp add: is_an_URL_def starts_with_def example_storage_def)
  have p: "path_join (germline_storage_path example_storage) ''germlines.csv''
             = ''/data/germline_data/germlines.csv''"
    by (simp add: germline_storage_path_def path_eval example_storage_def)
  have e: "exists cached_world ''/data/germline_data/germlines.csv''"
    "\<not> exists cached_world ''/data/germline_data/population.csv''"
    "\<not> exists online_world ''/data/germline_data/germlines.csv''"
    by (simp_all add: exists_def cached_world_def online_world_def)
  from retrieve_germline_cache_test[OF h1 h2] p e
  have r: "retrieve_germline example_storage cached_world = (Inr (), cached_world)"
    by simp
  from retrieve_germline_cache_test[OF h1' h2] p e
  have r': "retrieve_germline example_storage online_world \<noteq> (Inr (), online_world)"
    by simp
  have n: "new_GermlineStorage cached_world (get_germline_path example_storage cached_world)
       = Inl (Runtime_error (missing_file_message ''/data/germline_data'' ''population.csv''))"
    by (simp add: get_germline_path_def germline_storage_path_def new_GermlineStorage_def
          germline_files exists_def is_directory_def path_eval cached_world_def
          example_storage_def)
  have c: "construct_germline_storage example_storage cached_world
       = (Inl (Runtime_error (missing_file_message ''/data/germline_data''
                                ''population.csv'')), cached_world)"
    by (simp add: construct_germline_storage_def r n)
  from h1 h2 e r r' c show ?thesis
    by blast
qed

section \<open>Subjects of the population\<close>

lemmas csv_eval =
  CSVReader_def get_field_def subject_of_row_def get_population_def get_subject_def

lemma subject_of_row_name: "subject_of_row row = Inr s \<Longrightarrow> get_field row 0 = Inr (name s)"
  by (auto simp: subject_of_row_def split: sum.splits)

lemma population_loop_rows:
  "population_loop rows acc = Inr pop \<Longrightarrow>
     \<exists>ss. pop = acc @ ss \<and> list_all2 (\<lambda>row s. subject_of_row row = Inr s) rows ss"
proof (induction rows arbitrary: acc)
  case Nil
  then show ?case by simp
next
  case (Cons row rows)
  from Cons.prems obtain s where s: "subject_of_row row = Inr s"
    and l: "population_loop rows (acc @ [s]) = Inr pop"
    by (auto split: sum.splits)
  from Cons.IH[OF l] obtain ss where "pop = (acc @ [s]) @ ss"
    and "list_all2 (\<lambda>row s. subject_of_row row = Inr s) rows ss"
    by blast
  with s show ?case
    by (intro exI[of _ "s # ss"]) simp
qed

text \<open>The scan returns the first subject with the name, in the order of the file.\<close>

lemma subject_loop_find:
  "list_all2 (\<lambda>row s. subject_of_row row = Inr s) rows ss \<Longrightarrow>
     subject_loop rows n
       = (case find (\<lambda>s. name s = n) ss of
            Some s \<Rightarrow> Inr s
          | None \<Rightarrow> Inl (Runtime_error (''Germline subject \"'' @ n @ ''\" not available.'')))"
proof (induction rule: list_all2_induct)
  case Nil
  show ?case by simp
next
  case (Cons row rows s ss)
  from subject_of_row_name[OF Cons.hyps(1)] Cons.hyps(1) Cons.IH show ?case
    by simp
qed

lemma get_subject_find:
  assumes "get_population w gs = Inr pop"
  shows "get_subject w gs n
           = (case find (\<lambda>s. name s = n) pop of
                Some s \<Rightarrow> Inr s
              | None \<Rightarrow> Inl (Runtime_error (''Germline subject \"'' @ n @ ''\" not available.'')))"
proof -
  from assms obtain header rows
    where r: "CSVReader w (get_population_file gs) = Inr (header, rows)"
      and l: "population_loop rows [] = Inr pop"
    by (auto simp: get_population_def split: sum.splits)
  from population_loop_rows[OF l]
  have "list_all2 (\<lambda>row s. subject_of_row row = Inr s) rows pop"
    by simp
  from subject_loop_find[OF this] r show ?thesis
    by (simp add: get_subject_def)
qed

text \<open>
  C8, as amended. Let \<^verbatim>\<open>get_population()\<close> return the list \<open>pop\<close>. A subject of
  \<open>pop\<close> that no earlier subject shares its name with is returned by
  \<^verbatim>\<open>get_subject\<close> of its name; for any subject of \<open>pop\<close>, \<^verbatim>\<open>get_subject\<close> of
  its name returns a subject of \<open>pop\<close> with that name; so when the names are distinct
  every subject makes the round trip. For a name that no subject has,
  \<^verbatim>\<open>get_subject\<close> fails with an error that names it.
\<close>

theorem get_subject_first_match:
  assumes "get_population w gs = Inr pop"
  shows "(\<forall>i<length pop. (\<forall>j<i. name (pop ! j) \<noteq> name (pop ! i)) \<longrightarrow>
            get_subject w gs (name (pop ! i)) = Inr (pop ! i))
    \<and> (\<forall>s \<in> set pop. \<exists>s' \<in> set pop.
          name s' = name s \<and> get_subject w gs (name s) = Inr s')
    \<and> (distinct (map name pop) \<longrightarrow> (\<forall>s \<in> set pop. get_subject w gs (name s) = Inr s))
    \<and> (n \<notin> name ` set pop \<longrightarrow>
          get_subject w gs n
            = Inl (Runtime_error (''Germline subject \"'' @ n @ ''\" not available.''))
          \<and> names (''Germline subject \"'' @ n @ ''\" not available.'') n)"
proof (intro conjI allI impI ballI)
  fix i
  assume i: "i < length pop" and f: "\<forall>j<i. name (pop ! j) \<noteq> name (pop ! i)"
  then have "find (\<lambda>s. name s = name (pop ! i)) pop = Some (pop ! i)"
    by (auto simp: find_Some_iff)
  then show "get_subject w gs (name (pop ! i)) = Inr (pop ! i)"
    by (simp add: get_subject_find[OF assms])
next
  fix s
  assume "s \<in> set pop"
  then obtain s' where f: "find (\<lambda>r. name r = name s) pop = Some s'"
    by (cases "find (\<lambda>r. name r = name s) pop") (auto simp: find_None_iff)
  then have "s' \<in> set pop" and "name s' = name s"
    by (auto simp: find_Some_iff)
  with f show "\<exists>s' \<in> set pop. name s' = name s \<and> get_subject w gs (name s) = Inr s'"
    by (auto simp: get_subject_find[OF assms])
next
  fix s
  assume d: "distinct (map name pop)" and s: "s \<in> set pop"
  then obtain i where i: "i < length pop" "pop ! i = s"
    by (auto simp: in_set_conv_nth)
  have "\<forall>j<i. name (pop ! j) \<noteq> name (pop ! i)"
  proof (intro allI impI)
    fix j
    assume ji: "j < i"
    with i have jl: "j < length pop"
      by simp
    from nth_eq_iff_index_eq[OF d, of j i] jl i(1) ji
    have "map name pop ! j \<noteq> map name pop ! i"
      by simp
    with jl i(1) show "name (pop ! j) \<noteq> name (pop ! i)"
      by simp
  qed
  with i have "find (\<lambda>r. name r = name s) pop = Some s"
    by (auto simp: find_Some_iff)
  then show "get_subject w gs (name s) = Inr s"
    by (simp add: get_subject_find[OF assms])
next
  assume "n \<notin> name ` set pop"
  then have "find (\<lambda>s. name s = n) pop = None"
    by (auto simp: find_None_iff)
  then show "get_subject w gs n
               = Inl (Runtime_error (''Germline subject \"'' @ n @ ''\" not available.''))"
    by (simp add: get_subject_find[OF assms])
next
  show "names (''Germline subject \"'' @ n @ ''\" not available.'') n"
    by (rule names_append)
qed

theorem get_subject_first_match_witness:
  "get_population population_world (GermlineStorage ''/g'')
     = Inr [\<lparr>name = ''NA1'', population = ''GBR'', super_population = ''EUR'',
              gender = ''male''\<rparr>,
            \<lparr>name = ''NA2'', population = ''YRI'', super_population = ''AFR'',
              gender = ''female''\<rparr>]
   \<and> get_subject population_world (GermlineStorage ''/g'') ''NA1''
       = Inr \<lparr>name = ''NA1'', population = ''GBR'', super_population = ''EUR'',
               gender = ''male''\<rparr>
   \<and> get_subject population_world (GermlineStorage ''/g'') ''NA2''
       = Inr \<lparr>name = ''NA2'', population = ''YRI'', super_population = ''AFR'',
               gender = ''female''\<rparr>
   \<and> get_subject population_world (GermlineStorage ''/g'') ''HG9''
       = Inl (Runtime_error ''Germline subject \"HG9\" not available.'')"
proof -
  have p: "get_population population_world (GermlineStorage ''/g'')
     = Inr [\<lparr>name = ''NA1'', population = ''GBR'', super_population = ''EUR'',
              gender = ''male''\<rparr>,
            \<lparr>name = ''NA2'', population = ''YRI'', super_population = ''AFR'',
              gender = ''female''\<rparr>]"
    by (simp add: germline_files csv_eval path_eval population_world_def online_world_def)
  from get_subject_first_match[OF p, of "''HG9''"] p show ?thesis
    by simp
qed

text \<open>
  C8 as stated fails: with two rows under the name \<open>NA1\<close>, the second subject returned
  by \<^verbatim>\<open>get_population()\<close> does not come back from \<^verbatim>\<open>get_subject\<close> of its name;
  the first one does.
\<close>

theorem get_subject_duplicate_counterexample:
  "new_GermlineStorage duplicate_world ''/g'' = Inr (GermlineStorage ''/g'')
   \<and> get_population duplicate_world (GermlineStorage ''/g'')
       = Inr [\<lparr>name = ''NA1'', population = ''GBR'', super_population = ''EUR'',
                gender = ''male''\<rparr>,
              \<lparr>name = ''NA1'', population = ''YRI'', super_population = ''AFR'',
                gender = ''female''\<rparr>]
   \<and> get_subject duplicate_world (GermlineStorage ''/g'')
        (name \<lparr>name = ''NA1'', population = ''YRI'', super_population = ''AFR'',
                gender = ''female''\<rparr>)
       = Inr \<lparr>name = ''NA1'', population = ''GBR'', super_population = ''EUR'',
               gender = ''male''\<rparr>
   \<and> get_subject duplicate_world (GermlineStorage ''/g'')
        (name \<lparr>name = ''NA1'', population = ''YRI'', super_population = ''AFR'',
                gender = ''female''\<rparr>)
       \<noteq> Inr \<lparr>name = ''NA1'', population = ''YRI'', super_population = ''AFR'',
               gender = ''female''\<rparr>"
  by (simp add: new_GermlineStorage_def germline_files csv_eval exists_def is_directory_def
        path_eval duplicate_world_def population_world_def online_world_def)

section \<open>Alleles per chromosome\<close>

lemma map_insert_keeps: "m c = Some v \<Longrightarrow> map_insert m k x c = Some v"
  by (auto simp: map_insert_def split: option.splits)

lemma alleles_loop_keeps:
  "alleles_loop stochr index rows m0 = Inr m \<Longrightarrow> m0 c = Some v \<Longrightarrow> m c = Some v"
proof (induction rows arbitrary: m0)
  case Nil
  then show ?case by simp
next
  case (Cons row rows)
  from Cons.prems(1) obtain k x where "alleles_row stochr index row = Inr (k, x)"
    and l: "alleles_loop stochr index rows (map_insert m0 k x) = Inr m"
    by (auto split: sum.splits)
  from Cons.prems(2) have "map_insert m0 k x c = Some v"
    by (rule map_insert_keeps)
  from Cons.IH[OF l this] show ?case .
qed

lemma alleles_loop_first:
  "alleles_loop stochr index rows m0 = Inr m \<Longrightarrow> m0 c = None \<Longrightarrow> i < length rows \<Longrightarrow>
   alleles_row stochr index (rows ! i) = Inr (c, n) \<Longrightarrow>
   (\<forall>k<i. \<forall>x. alleles_row stochr index (rows ! k) \<noteq> Inr (c, x)) \<Longrightarrow> m c = Some n"
proof (induction rows arbitrary: m0 i)
  case Nil
  then show ?case by simp
next
  case (Cons row rows)
  from Cons.prems(1) obtain k x where r: "alleles_row stochr index row = Inr (k, x)"
    and l: "alleles_loop stochr index rows (map_insert m0 k x) = Inr m"
    by (auto split: sum.splits)
  show ?case
  proof (cases i)
    case 0
    with Cons.prems(4) r have "k = c" and "x = n"
      by simp_all
    with Cons.prems(2) have "map_insert m0 k x c = Some n"
      by (simp add: map_insert_def)
    from alleles_loop_keeps[OF l this] show ?thesis .
  next
    case (Suc i')
    with Cons.prems(5) r have "k \<noteq> c"
      by auto
    with Cons.prems(2) have e: "map_insert m0 k x c = None"
      by (auto simp: map_insert_def split: option.splits)
    from Suc Cons.prems(3) have il: "i' < length rows"
      by simp
    from Suc Cons.prems(4) have ir: "alleles_row stochr index (rows ! i') = Inr (c, n)"
      by simp
    from Suc Cons.prems(5)
    have "\<forall>k<i'. \<forall>x. alleles_row stochr index (rows ! k) \<noteq> Inr (c, x)"
      by auto
    from Cons.IH[OF l e il ir this] show ?thesis .
  qed
qed

text \<open>
  C10. Let the alleles file have the data rows \<open>rows\<close>, and let row \<open>i\<close> and a later
  row \<open>j\<close> parse to the same chromosome \<open>c\<close>, row \<open>i\<close> being the first that does.
  Then the map returned by \<^verbatim>\<open>get_alleles_per_chromosome\<close> gives \<open>c\<close> the count of
  row \<open>i\<close>: the later row does not overwrite it.
\<close>

theorem get_alleles_per_chromosome_first_row_kept:
  assumes "CSVReader w (get_alleles_file gs) = Inr (header, rows)"
    and "first_index gender_name header = Some index"
    and "get_alleles_per_chromosome stochr w gs gender_name = Inr m"
    and "i < j" and "j < length rows"
    and "alleles_row stochr index (rows ! i) = Inr (c, n)"
    and "alleles_row stochr index (rows ! j) = Inr (c, n')"
    and "\<forall>k<i. \<forall>x. alleles_row stochr index (rows ! k) \<noteq> Inr (c, x)"
  shows "m c = Some n"
proof -
  from assms(1-3) have l: "alleles_loop stochr index rows Map.empty = Inr m"
    by (simp add: get_alleles_per_chromosome_def)
  from assms(4,5) have "i < length rows"
    by simp
  from alleles_loop_first[OF l _ this assms(6) assms(8)] show ?thesis
    by simp
qed

lemmas alleles_eval =
  get_alleles_per_chromosome_def alleles_row_def map_insert_def example_stochr_def
  stoul_def isspace_def isdigit_def digits_value_def

theorem get_alleles_per_chromosome_first_row_kept_witness:
  "CSVReader population_world (get_alleles_file (GermlineStorage ''/g''))
     = Inr ([''chr'', ''male'', ''female''],
            [[''1'', ''2'', ''2''], [''X'', ''1'', ''2''], [''X'', ''7'', ''7'']])
   \<and> first_index ''male'' [''chr'', ''male'', ''female''] = Some 1
   \<and> get_alleles_per_chromosome example_stochr population_world (GermlineStorage ''/g'')
        ''male'' = Inr [1 \<mapsto> 2, 23 \<mapsto> 1]
   \<and> alleles_row example_stochr 1
        ([[''1'', ''2'', ''2''], [''X'', ''1'', ''2''], [''X'', ''7'', ''7'']] ! 1) = Inr (23, 1)
   \<and> alleles_row example_stochr 1
        ([[''1'', ''2'', ''2''], [''X'', ''1'', ''2''], [''X'', ''7'', ''7'']] ! 2) = Inr (23, 7)
   \<and> [1 \<mapsto> 2, 23 \<mapsto> (1::nat)] (23::nat) = Some 1"
proof -
  have h1: "CSVReader population_world (get_alleles_file (GermlineStorage ''/g''))
     = Inr ([''chr'', ''male'', ''female''],
            [[''1'', ''2'', ''2''], [''X'', ''1'', ''2''], [''X'', ''7'', ''7'']])"
    by (simp add: germline_files csv_eval path_eval population_world_def online_world_def)
  have h2: "first_index ''male'' [''chr'', ''male'', ''female''] = Some 1"
    by simp
  have h3: "get_alleles_per_chromosome example_stochr population_world (GermlineStorage ''/g'')
        ''male'' = Inr [1 \<mapsto> 2, 23 \<mapsto> 1]"
    by (simp add: alleles_eval germline_files csv_eval path_eval population_world_def
          online_world_def)
  have h4: "(1::nat) < 2"
    and h5: "2 < length [[''1'', ''2'', ''2''], [''X'', ''1'', ''2''], [''X'', ''7'', ''7'']]"
    by simp_all
  have h6: "alleles_row example_stochr 1
        ([[''1'', ''2'', ''2''], [''X'', ''1'', ''2''], [''X'', ''7'', ''7'']] ! 1) = Inr (23, 1)"
    by (simp add: alleles_eval get_field_def)
  have h7: "alleles_row example_stochr 1
        ([[''1'', ''2'', ''2''], [''X'', ''1'', ''2''], [''X'', ''7'', ''7'']] ! 2) = Inr (23, 7)"
    by (simp add: alleles_eval get_field_def)
  have h8: "\<forall>k<1. \<forall>x. alleles_row example_stochr 1
        ([[''1'', ''2'', ''2''], [''X'', ''1'', ''2''], [''X'', ''7'', ''7'']] ! k) \<noteq> Inr (23, x)"
    by (simp add: alleles_eval get_field_def)
  from get_alleles_per_chromosome_first_row_kept[OF h1 h2 h3 h4 h5 h6 h7 h8]
  have "[1 \<mapsto> 2, 23 \<mapsto> (1::nat)] (23::nat) = Some 1" .
  with h1 h2 h3 h6 h7 show ?thesis
    by blast
qed

end
